theory Spec2Isabelle
  imports Main
begin

section \<open>The vote cache of toppy: \<^verbatim>\<open>toppy/webhook/cache.py\<close>\<close>

text \<open>
  The module keeps a ledger of votes under the directory \<^verbatim>\<open>toppy_vote_cache\<close>: a counter
  file \<^verbatim>\<open>number.txt\<close>, and either \<^verbatim>\<open>votes.json\<close> (class \<^verbatim>\<open>JSONDatabase\<close>) or
  \<^verbatim>\<open>votes.db\<close> (class \<^verbatim>\<open>SQLiteDatabase\<close>). Every method is a state transformer on the
  object (\<^verbatim>\<open>self\<close>) and on the disk; an exception is the \<open>Inl\<close> branch of the result.
  The coroutines are modelled as run to completion one after the other.
\<close>

subsection \<open>Exceptions\<close>

datatype error =
    FileNotFoundError | FileExistsError | NotADirectoryError | IsADirectoryError
  | UnsupportedOperation | UnicodeDecodeError
  | ValueError | JSONDecodeError
  | AttributeError | IndexError | KeyError | TypeError
  | OverflowError | IntegrityError | OperationalError | DatabaseError

subsection \<open>The disk\<close>

text \<open>
  A file holds text, or the image of an SQLite database. Of a database only the table
  \<^verbatim>\<open>votes\<close> is modelled: \<open>Sqlite None\<close> has no such table, \<open>Sqlite (Some rows)\<close>
  holds its rows \<^verbatim>\<open>(number, user_id, time, site)\<close> in rowid order.
  The disk is deterministic: a call fails only for a reason visible in it (no full disk,
  no permissions).
\<close>

type_synonym row = "int \<times> int \<times> string \<times> string"

datatype content = Text string | Sqlite "row list option"

record disk =
  dirs :: "string set"
  files :: "string \<rightharpoonup> content"

definition os_path_exists :: "disk \<Rightarrow> string \<Rightarrow> bool" where
  "os_path_exists d name = (name \<in> dirs d \<or> files d name \<noteq> None)"

text \<open>The directory part of a path: everything before the last slash, empty when there is none.\<close>

definition parent :: "string \<Rightarrow> string" where
  "parent name =
     (if CHR ''/'' \<in> set name
      then rev (tl (dropWhile (\<lambda>c. c \<noteq> CHR ''/'') (rev name))) else [])"

text \<open>Why a file cannot be created at \<open>name\<close>, if it cannot: the working directory always exists.\<close>

definition parent_error :: "disk \<Rightarrow> string \<Rightarrow> error option" where
  "parent_error d name =
     (if parent name = [] \<or> parent name \<in> dirs d then None
      else if files d (parent name) \<noteq> None then Some NotADirectoryError
      else Some FileNotFoundError)"

definition os_mkdir :: "string \<Rightarrow> disk \<Rightarrow> error + disk" where
  "os_mkdir name d =
     (if os_path_exists d name then Inl FileExistsError
      else case parent_error d name of
             Some e \<Rightarrow> Inl e
           | None \<Rightarrow> Inr (d\<lparr>dirs := insert name (dirs d)\<rparr>))"

subsection \<open>Files opened through \<^verbatim>\<open>aiofiles\<close>\<close>

datatype mode = R | W

record handle =
  path :: string
  hmode :: mode

text \<open>
  Opening for writing creates the file or empties it; opening for reading needs the file.
\<close>

definition aio_open :: "string \<Rightarrow> mode \<Rightarrow> disk \<Rightarrow> error + (handle \<times> disk)" where
  "aio_open name m d =
     (if name \<in> dirs d then Inl IsADirectoryError
      else case m of
             R \<Rightarrow> (if files d name = None then Inl FileNotFoundError
                   else Inr (\<lparr>path = name, hmode = R\<rparr>, d))
           | W \<Rightarrow> (case parent_error d name of
                     Some e \<Rightarrow> Inl e
                   | None \<Rightarrow> Inr (\<lparr>path = name, hmode = W\<rparr>,
                                   d\<lparr>files := (files d)(name \<mapsto> Text [])\<rparr>)))"

text \<open>
  \<^verbatim>\<open>f.read()\<close>: the whole text. A handle opened for writing is not readable; a database
  image is not text.
\<close>

definition aio_read :: "handle \<Rightarrow> disk \<Rightarrow> error + string" where
  "aio_read f d =
     (case hmode f of
        W \<Rightarrow> Inl UnsupportedOperation
      | R \<Rightarrow> (case files d (path f) of
                Some (Text s) \<Rightarrow> Inr s
              | _ \<Rightarrow> Inl UnicodeDecodeError))"

text \<open>\<^verbatim>\<open>f.write(text)\<close>: a handle opened for reading is not writable.\<close>

definition aio_write :: "handle \<Rightarrow> string \<Rightarrow> disk \<Rightarrow> error + disk" where
  "aio_write f s d =
     (case hmode f of
        R \<Rightarrow> Inl UnsupportedOperation
      | W \<Rightarrow> (case files d (path f) of
                Some (Text old) \<Rightarrow> Inr (d\<lparr>files := (files d)(path f \<mapsto> Text (old @ s))\<rparr>)
              | _ \<Rightarrow> Inr (d\<lparr>files := (files d)(path f \<mapsto> Text s)\<rparr>)))"

subsection \<open>\<^verbatim>\<open>mkdir\<close> and \<^verbatim>\<open>mkfile\<close>\<close>

text \<open>Both log the exception and return normally: the failure is swallowed.\<close>

definition mkdir :: "string \<Rightarrow> disk \<Rightarrow> disk" where
  "mkdir name d = (case os_mkdir name d of Inl exc \<Rightarrow> d | Inr d' \<Rightarrow> d')"

text \<open>\<^verbatim>\<open>mkfile\<close> opens the file for writing and closes it: nothing is written into it.\<close>

definition mkfile :: "string \<Rightarrow> disk \<Rightarrow> disk" where
  "mkfile name d = (case aio_open name W d of Inl exc \<Rightarrow> d | Inr (file, d') \<Rightarrow> d')"

subsection \<open>\<^verbatim>\<open>int(content)\<close> and \<^verbatim>\<open>str(self.number)\<close>\<close>

definition is_digit :: "char \<Rightarrow> bool" where
  "is_digit c = (c \<in> set ''0123456789'')"

definition digit_val :: "char \<Rightarrow> int" where
  "digit_val c = int (of_char c) - 48"

definition is_space :: "char \<Rightarrow> bool" where
  "is_space c = (of_char c \<in> set [9, 10, 11, 12, 13, 28, 29, 30, 31, 32, 133, 160 :: nat])"

definition strip :: "string \<Rightarrow> string" where
  "strip s = rev (dropWhile is_space (rev (dropWhile is_space s)))"

text \<open>The digits after the first one: a single underscore may stand between two digits.\<close>

fun int_digits :: "int \<Rightarrow> string \<Rightarrow> int option" where
  "int_digits acc [] = Some acc"
| "int_digits acc [c] = (if is_digit c then Some (10 * acc + digit_val c) else None)"
| "int_digits acc (c # c' # cs) =
     (if is_digit c then int_digits (10 * acc + digit_val c) (c' # cs)
      else if c = CHR ''_'' \<and> is_digit c' then int_digits (10 * acc + digit_val c') cs
      else None)"

definition int_unsigned :: "string \<Rightarrow> int option" where
  "int_unsigned s =
     (case s of [] \<Rightarrow> None
      | c # cs \<Rightarrow> if is_digit c then int_digits (digit_val c) cs else None)"

text \<open>
  Python's \<^verbatim>\<open>int\<close> of a string, base ten: surrounding whitespace, an optional sign,
  digits. \<open>None\<close> is the \<^verbatim>\<open>ValueError\<close>. The limit that recent versions put on the
  number of digits is left out.
\<close>

definition py_int :: "string \<Rightarrow> int option" where
  "py_int s =
     (case strip s of
        [] \<Rightarrow> None
      | c # cs \<Rightarrow> if c = CHR ''-'' then map_option uminus (int_unsigned cs)
                  else if c = CHR ''+'' then int_unsigned cs
                  else int_unsigned (c # cs))"

fun str_nat :: "nat \<Rightarrow> string" where
  "str_nat n =
     (if n < 10 then [char_of (48 + n)]
      else str_nat (n div 10) @ [char_of (48 + n mod 10)])"

definition py_str :: "int \<Rightarrow> string" where
  "py_str i = (if i < 0 then CHR ''-'' # str_nat (nat (- i)) else str_nat (nat i))"

subsection \<open>\<^verbatim>\<open>AbstractDatabase\<close>\<close>

record AbstractDatabase =
  number :: int

definition root_dir :: string where
  "root_dir = ''toppy_vote_cache''"

definition number_txt :: string where
  "number_txt = ''toppy_vote_cache/number.txt''"

text \<open>
  The first two statements of \<^verbatim>\<open>AbstractDatabase.connect\<close>: the directory, then the
  counter file, each made when \<^verbatim>\<open>os.path.exists\<close> denies it.
\<close>

definition ensure_root :: "disk \<Rightarrow> disk" where
  "ensure_root d =
     (let d1 = (if \<not> os_path_exists d root_dir then mkdir root_dir d else d)
      in if \<not> os_path_exists d1 number_txt then mkfile number_txt d1 else d1)"

text \<open>Then the counter file is read and \<^verbatim>\<open>self.number = int(content)\<close>.\<close>

definition AbstractDatabase_connect ::
  "'a AbstractDatabase_scheme \<Rightarrow> disk \<Rightarrow> (error + unit) \<times> 'a AbstractDatabase_scheme \<times> disk" where
  "AbstractDatabase_connect self d =
     (let d2 = ensure_root d
      in case aio_open number_txt R d2 of
           Inl e \<Rightarrow> (Inl e, self, d2)
         | Inr (f, d3) \<Rightarrow>
             (case aio_read f d3 of
                Inl e \<Rightarrow> (Inl e, self, d3)
              | Inr content \<Rightarrow>
                  (case py_int content of
                     None \<Rightarrow> (Inl ValueError, self, d3)
                   | Some n \<Rightarrow> (Inr (), self\<lparr>number := n\<rparr>, d3))))"

subsection \<open>JSON values\<close>

text \<open>
  What \<^verbatim>\<open>json.loads\<close> returns: \<^verbatim>\<open>None\<close>, a bool, an int, a float, a str, a list or a
  dict. A float is kept as its lexeme, a dict as its items in insertion order. A Python
  \<^verbatim>\<open>str\<close> is a \<^typ>\<open>string\<close>: the code points below 256.
\<close>

datatype json =
    JNull | JBool bool | JInt int | JFloat string | JStr string
  | JList "json list" | JObject "(string \<times> json) list"

definition dquote :: char where
  "dquote = CHR 0x22"

definition backslash :: char where
  "backslash = CHR 0x5C"

definition hex_digit :: "nat \<Rightarrow> char" where
  "hex_digit n = ''0123456789abcdef'' ! (n mod 16)"

text \<open>The escapes of \<^verbatim>\<open>json.dumps\<close> with \<^verbatim>\<open>ensure_ascii\<close>, its default.\<close>

definition esc_char :: "char \<Rightarrow> string" where
  "esc_char c =
     (if c = dquote then [backslash, dquote]
      else if c = backslash then [backslash, backslash]
      else if c = CHR 0x0A then [backslash, CHR ''n'']
      else if c = CHR 0x0D then [backslash, CHR ''r'']
      else if c = CHR 0x09 then [backslash, CHR ''t'']
      else if c = CHR 0x08 then [backslash, CHR ''b'']
      else if c = CHR 0x0C then [backslash, CHR ''f'']
      else if of_char c < (32::nat) \<or> (126::nat) < of_char c
      then [backslash, CHR ''u'', CHR ''0'', CHR ''0'',
            hex_digit (of_char c div 16), hex_digit (of_char c)]
      else [c])"

definition encode_str :: "string \<Rightarrow> string" where
  "encode_str s = dquote # concat (map esc_char s) @ [dquote]"

fun join :: "string \<Rightarrow> string list \<Rightarrow> string" where
  "join sep [] = []"
| "join sep [x] = x"
| "join sep (x # y # ys) = x @ sep @ join sep (y # ys)"

text \<open>With an indent, every item of a container starts a line of its own.\<close>

definition newline_indent :: "nat option \<Rightarrow> nat \<Rightarrow> string" where
  "newline_indent indent level =
     (case indent of None \<Rightarrow> [] | Some n \<Rightarrow> CHR 0x0A # replicate (n * level) CHR '' '')"

definition item_separator :: "nat option \<Rightarrow> nat \<Rightarrow> string" where
  "item_separator indent level =
     (case indent of None \<Rightarrow> '', '' | Some n \<Rightarrow> '','' @ newline_indent indent level)"

fun json_encode :: "nat option \<Rightarrow> nat \<Rightarrow> json \<Rightarrow> string" where
  "json_encode indent level JNull = ''null''"
| "json_encode indent level (JBool b) = (if b then ''true'' else ''false'')"
| "json_encode indent level (JInt i) = py_str i"
| "json_encode indent level (JFloat x) = x"
| "json_encode indent level (JStr s) = encode_str s"
| "json_encode indent level (JList xs) =
     (if xs = [] then ''[]''
      else ''['' @ newline_indent indent (Suc level)
           @ join (item_separator indent (Suc level))
                  (map (json_encode indent (Suc level)) xs)
           @ newline_indent indent level @ '']'')"
| "json_encode indent level (JObject kvs) =
     (if kvs = [] then ''{}''
      else ''{'' @ newline_indent indent (Suc level)
           @ join (item_separator indent (Suc level))
                  (map (\<lambda>kv. encode_str (fst kv) @ '': ''
                               @ json_encode indent (Suc level) (snd kv)) kvs)
           @ newline_indent indent level @ ''}'')"

text \<open>\<^verbatim>\<open>json.dumps(obj)\<close> and \<^verbatim>\<open>json.dumps(obj, indent=n)\<close>.\<close>

definition json_dumps :: "json \<Rightarrow> string" where
  "json_dumps v = json_encode None 0 v"

definition json_dumps_indent :: "nat \<Rightarrow> json \<Rightarrow> string" where
  "json_dumps_indent n v = json_encode (Some n) 0 v"

subsection \<open>\<^verbatim>\<open>json.loads\<close>: the scanner\<close>

datatype token =
    TLBrack | TRBrack | TLBrace | TRBrace | TComma | TColon
  | TString string | TAtom string

text \<open>
  The scanner reads one character at a time. Inside a string it collects the characters
  (in reverse); \<open>LUni s k v\<close> has read \<open>k\<close> hexadecimal digits of value \<open>v\<close> of a
  \<^verbatim>\<open>\uXXXX\<close> escape. An atom is a maximal run of letters, digits, signs and dots:
  a number or one of the constants.
\<close>

datatype lexst = LTop | LAtom string | LStr string | LEsc string | LUni string nat nat

definition json_ws :: "char \<Rightarrow> bool" where
  "json_ws c = (c \<in> set [CHR '' '', CHR 0x09, CHR 0x0A, CHR 0x0D])"

definition atom_char :: "char \<Rightarrow> bool" where
  "atom_char c =
     (c \<in> set ''abcdefghijklmnopqrstuvwxyzABCDEFGHIJKLMNOPQRSTUVWXYZ0123456789+-.'')"

definition punct :: "char \<Rightarrow> token option" where
  "punct c =
     (if c = CHR ''['' then Some TLBrack else if c = CHR '']'' then Some TRBrack
      else if c = CHR ''{'' then Some TLBrace else if c = CHR ''}'' then Some TRBrace
      else if c = CHR '','' then Some TComma else if c = CHR '':'' then Some TColon
      else None)"

definition hex_val :: "char \<Rightarrow> nat option" where
  "hex_val c =
     (if is_digit c then Some (of_char c - 48)
      else if c \<in> set ''abcdef'' then Some (of_char c - 87)
      else if c \<in> set ''ABCDEF'' then Some (of_char c - 55)
      else None)"

definition step_top :: "char \<Rightarrow> (token list \<times> lexst) option" where
  "step_top c =
     (if json_ws c then Some ([], LTop)
      else case punct c of
             Some t \<Rightarrow> Some ([t], LTop)
           | None \<Rightarrow> if c = dquote then Some ([], LStr [])
                     else if atom_char c then Some ([], LAtom [c])
                     else None)"

definition unescape :: "char \<Rightarrow> char option" where
  "unescape c =
     (if c = dquote \<or> c = backslash \<or> c = CHR ''/'' then Some c
      else if c = CHR ''b'' then Some (CHR 0x08) else if c = CHR ''f'' then Some (CHR 0x0C)
      else if c = CHR ''n'' then Some (CHR 0x0A) else if c = CHR ''r'' then Some (CHR 0x0D)
      else if c = CHR ''t'' then Some (CHR 0x09)
      else None)"

fun lex_step :: "lexst \<Rightarrow> char \<Rightarrow> (token list \<times> lexst) option" where
  "lex_step LTop c = step_top c"
| "lex_step (LAtom a) c =
     (if atom_char c then Some ([], LAtom (c # a))
      else case step_top c of
             None \<Rightarrow> None
           | Some (ts, st) \<Rightarrow> Some (TAtom (rev a) # ts, st))"
| "lex_step (LStr s) c =
     (if c = dquote then Some ([TString (rev s)], LTop)
      else if c = backslash then Some ([], LEsc s)
      else if of_char c < (32::nat) then None
      else Some ([], LStr (c # s)))"
| "lex_step (LEsc s) c =
     (if c = CHR ''u'' then Some ([], LUni s 0 0)
      else case unescape c of None \<Rightarrow> None | Some c' \<Rightarrow> Some ([], LStr (c' # s)))"
| "lex_step (LUni s k v) c =
     (case hex_val c of
        None \<Rightarrow> None
      | Some h \<Rightarrow>
          if k < 3 then Some ([], LUni s (Suc k) (16 * v + h))
          else if 16 * v + h < 256 then Some ([], LStr (char_of (16 * v + h) # s))
          else None)"

fun lex_end :: "lexst \<Rightarrow> token list option" where
  "lex_end LTop = Some []"
| "lex_end (LAtom a) = Some [TAtom (rev a)]"
| "lex_end st = None"

fun lex :: "lexst \<Rightarrow> string \<Rightarrow> token list option" where
  "lex st [] = lex_end st"
| "lex st (c # cs) =
     (case lex_step st c of
        None \<Rightarrow> None
      | Some (ts, st') \<Rightarrow> map_option ((@) ts) (lex st' cs))"

text \<open>
  An atom is a constant or a number: an optional minus, \<^verbatim>\<open>0\<close> or digits without a
  leading zero, an optional fraction, an optional exponent.
\<close>

definition int_part_ok :: "string \<Rightarrow> bool" where
  "int_part_ok ds = (ds \<noteq> [] \<and> (ds = ''0'' \<or> hd ds \<noteq> CHR ''0''))"

definition fraction :: "string \<Rightarrow> (bool \<times> string) option" where
  "fraction s =
     (case s of
        c # r \<Rightarrow> if c = CHR ''.''
                 then (if takeWhile is_digit r = [] then None
                       else Some (True, dropWhile is_digit r))
                 else Some (False, s)
      | [] \<Rightarrow> Some (False, s))"

definition exponent :: "string \<Rightarrow> (bool \<times> string) option" where
  "exponent s =
     (case s of
        c # r \<Rightarrow> if c = CHR ''e'' \<or> c = CHR ''E''
                 then (let r' = (case r of c' # r'' \<Rightarrow>
                                   if c' = CHR ''+'' \<or> c' = CHR ''-'' then r'' else r
                                 | [] \<Rightarrow> r)
                       in if takeWhile is_digit r' = [] then None
                          else Some (True, dropWhile is_digit r'))
                 else Some (False, s)
      | [] \<Rightarrow> Some (False, s))"

definition number_atom :: "string \<Rightarrow> json option" where
  "number_atom a =
     (let neg = (a \<noteq> [] \<and> hd a = CHR ''-'');
          r = (if neg then tl a else a);
          ds = takeWhile is_digit r
      in if \<not> int_part_ok ds then None
         else case fraction (dropWhile is_digit r) of
                None \<Rightarrow> None
              | Some (hasf, r1) \<Rightarrow>
                  (case exponent r1 of
                     None \<Rightarrow> None
                   | Some (hase, r2) \<Rightarrow>
                       if r2 \<noteq> [] then None
                       else if hasf \<or> hase then Some (JFloat a)
                       else map_option (\<lambda>n. JInt (if neg then - n else n))
                                       (int_unsigned ds)))"

definition atom_value :: "string \<Rightarrow> json option" where
  "atom_value a =
     (if a = ''null'' then Some JNull
      else if a = ''true'' then Some (JBool True)
      else if a = ''false'' then Some (JBool False)
      else if a = ''NaN'' \<or> a = ''Infinity'' \<or> a = ''-Infinity'' then Some (JFloat a)
      else number_atom a)"

subsection \<open>\<^verbatim>\<open>json.loads\<close>: the parser\<close>

text \<open>
  The parser runs over the tokens with a stack of the containers still open: a list with
  its items so far (in reverse), a dict with its items so far and the key that waits for
  its value.
\<close>

datatype frame = FList "json list" | FObj "(string \<times> json) list" "string option"

datatype pstate = ExpValue | ExpValueOrEnd | ExpKey | ExpKeyOrEnd | ExpColon | AfterValue | Done json

text \<open>A key met again keeps its place and takes the new value, as in a Python dict.\<close>

fun dict_set :: "(string \<times> json) list \<Rightarrow> string \<Rightarrow> json \<Rightarrow> (string \<times> json) list" where
  "dict_set [] k v = [(k, v)]"
| "dict_set (p # ps) k v = (if fst p = k then (k, v) # ps else p # dict_set ps k v)"

fun push_value :: "json \<Rightarrow> frame list \<Rightarrow> (pstate \<times> frame list) option" where
  "push_value v [] = Some (Done v, [])"
| "push_value v (FList xs # fs) = Some (AfterValue, FList (v # xs) # fs)"
| "push_value v (FObj kvs (Some k) # fs) = Some (AfterValue, FObj (dict_set kvs k v) None # fs)"
| "push_value v (FObj kvs None # fs) = None"

fun close_list :: "frame list \<Rightarrow> (pstate \<times> frame list) option" where
  "close_list (FList xs # fs) = push_value (JList (rev xs)) fs"
| "close_list fs = None"

fun close_dict :: "frame list \<Rightarrow> (pstate \<times> frame list) option" where
  "close_dict (FObj kvs None # fs) = push_value (JObject kvs) fs"
| "close_dict fs = None"

fun open_key :: "string \<Rightarrow> frame list \<Rightarrow> (pstate \<times> frame list) option" where
  "open_key k (FObj kvs None # fs) = Some (ExpColon, FObj kvs (Some k) # fs)"
| "open_key k fs = None"

fun start_value :: "token \<Rightarrow> frame list \<Rightarrow> (pstate \<times> frame list) option" where
  "start_value (TString s) fs = push_value (JStr s) fs"
| "start_value (TAtom a) fs =
     (case atom_value a of None \<Rightarrow> None | Some v \<Rightarrow> push_value v fs)"
| "start_value TLBrack fs = Some (ExpValueOrEnd, FList [] # fs)"
| "start_value TLBrace fs = Some (ExpKeyOrEnd, FObj [] None # fs)"
| "start_value t fs = None"

fun after_comma :: "frame list \<Rightarrow> (pstate \<times> frame list) option" where
  "after_comma (FList xs # fs) = Some (ExpValue, FList xs # fs)"
| "after_comma (FObj kvs None # fs) = Some (ExpKey, FObj kvs None # fs)"
| "after_comma fs = None"

fun parse_step :: "pstate \<Rightarrow> frame list \<Rightarrow> token \<Rightarrow> (pstate \<times> frame list) option" where
  "parse_step ExpValue fs t = start_value t fs"
| "parse_step ExpValueOrEnd fs t = (if t = TRBrack then close_list fs else start_value t fs)"
| "parse_step ExpKeyOrEnd fs t =
     (case t of TRBrace \<Rightarrow> close_dict fs | TString k \<Rightarrow> open_key k fs | _ \<Rightarrow> None)"
| "parse_step ExpKey fs t = (case t of TString k \<Rightarrow> open_key k fs | _ \<Rightarrow> None)"
| "parse_step ExpColon fs t = (if t = TColon then Some (ExpValue, fs) else None)"
| "parse_step AfterValue fs t =
     (case t of TComma \<Rightarrow> after_comma fs | TRBrack \<Rightarrow> close_list fs
      | TRBrace \<Rightarrow> close_dict fs | _ \<Rightarrow> None)"
| "parse_step (Done v) fs t = None"

fun parse :: "pstate \<Rightarrow> frame list \<Rightarrow> token list \<Rightarrow> json option" where
  "parse st fs [] = (case st of Done v \<Rightarrow> Some v | _ \<Rightarrow> None)"
| "parse st fs (t # ts) =
     (case parse_step st fs t of None \<Rightarrow> None | Some (st', fs') \<Rightarrow> parse st' fs' ts)"

text \<open>\<^verbatim>\<open>json.loads(text)\<close>; \<open>None\<close> is the \<^verbatim>\<open>JSONDecodeError\<close>.\<close>

definition json_loads :: "string \<Rightarrow> json option" where
  "json_loads text = (case lex LTop text of None \<Rightarrow> None | Some ts \<Rightarrow> parse ExpValue [] ts)"

subsection \<open>What Python does with a decoded value\<close>

text \<open>\<^verbatim>\<open>xs[i]\<close>: a negative index counts from the end; out of range is an \<^verbatim>\<open>IndexError\<close>.\<close>

definition py_index :: "'a list \<Rightarrow> int \<Rightarrow> 'a option" where
  "py_index xs i =
     (let n = int (length xs); j = (if i < 0 then n + i else i)
      in if 0 \<le> j \<and> j < n then Some (xs ! nat j) else None)"

text \<open>
  \<^verbatim>\<open>v[i]\<close> with an int \<open>i\<close>: an item of a list, a character of a str; a dict decoded
  from JSON has str keys only; the other values have no subscript.
\<close>

fun py_getitem :: "json \<Rightarrow> int \<Rightarrow> error + json" where
  "py_getitem (JList xs) i = (case py_index xs i of None \<Rightarrow> Inl IndexError | Some x \<Rightarrow> Inr x)"
| "py_getitem (JStr s) i = (case py_index s i of None \<Rightarrow> Inl IndexError | Some c \<Rightarrow> Inr (JStr [c]))"
| "py_getitem (JObject kvs) i = Inl KeyError"
| "py_getitem v i = Inl TypeError"

text \<open>\<^verbatim>\<open>for d in v\<close>: the items of a list, the characters of a str, the keys of a dict.\<close>

fun py_iter :: "json \<Rightarrow> error + json list" where
  "py_iter (JList xs) = Inr xs"
| "py_iter (JStr s) = Inr (map (\<lambda>c. JStr [c]) s)"
| "py_iter (JObject kvs) = Inr (map (\<lambda>kv. JStr (fst kv)) kvs)"
| "py_iter v = Inl TypeError"

text \<open>\<^verbatim>\<open>v.append(x)\<close>: only a list has the method.\<close>

fun py_append :: "json \<Rightarrow> json \<Rightarrow> error + json" where
  "py_append (JList xs) x = Inr (JList (xs @ [x]))"
| "py_append v x = Inl AttributeError"

subsection \<open>Times, payloads and cached votes\<close>

text \<open>
  A \<^verbatim>\<open>datetime.datetime\<close>: the fields, and the offset from UTC in seconds of an aware one.
\<close>

record datetime =
  year :: nat
  month :: nat
  day :: nat
  hour :: nat
  minute :: nat
  second :: nat
  microsecond :: nat
  utcoffset :: "int option"

fun pad :: "nat \<Rightarrow> nat \<Rightarrow> string" where
  "pad 0 n = []"
| "pad (Suc w) n = pad w (n div 10) @ [char_of (48 + n mod 10)]"

definition isoformat_offset :: "int \<Rightarrow> string" where
  "isoformat_offset off =
     (let a = nat \<bar>off\<bar>
      in (if off < 0 then ''-'' else ''+'') @ pad 2 (a div 3600) @ '':'' @ pad 2 (a div 60 mod 60)
         @ (if a mod 60 = 0 then [] else '':'' @ pad 2 (a mod 60)))"

text \<open>\<^verbatim>\<open>dt.isoformat()\<close>: the microseconds are written when they are not zero.\<close>

definition isoformat :: "datetime \<Rightarrow> string" where
  "isoformat t =
     pad 4 (year t) @ ''-'' @ pad 2 (month t) @ ''-'' @ pad 2 (day t) @ ''T''
     @ pad 2 (hour t) @ '':'' @ pad 2 (minute t) @ '':'' @ pad 2 (second t)
     @ (if microsecond t = 0 then [] else ''.'' @ pad 6 (microsecond t))
     @ (case utcoffset t of None \<Rightarrow> [] | Some off \<Rightarrow> isoformat_offset off)"

text \<open>
  What the cache reads of a \<^verbatim>\<open>BaseVotePayload\<close> (a class of \<^verbatim>\<open>payload.py\<close>): the
  attributes \<^verbatim>\<open>user_id\<close>, \<^verbatim>\<open>time\<close> and \<^verbatim>\<open>SITE\<close>.
\<close>

record BaseVotePayload =
  user_id :: int
  time :: datetime
  SITE :: string

text \<open>
  \<^verbatim>\<open>CachedVote(number, id, time, site)\<close>. The dataclass checks no types: \<^verbatim>\<open>number\<close>,
  \<^verbatim>\<open>id\<close> and \<^verbatim>\<open>site\<close> are whatever value the backend read.
\<close>

datatype CachedVote = CachedVote json json datetime json

text \<open>
  \<^verbatim>\<open>datetime.datetime.fromisoformat\<close> is a parameter of the fetch methods, \<open>None\<close> its
  \<^verbatim>\<open>ValueError\<close>: which strings it accepts depends on the Python version. Its argument
  must be a str.
\<close>

fun py_fromisoformat :: "(string \<Rightarrow> datetime option) \<Rightarrow> json \<Rightarrow> error + datetime" where
  "py_fromisoformat fromisoformat (JStr s) =
     (case fromisoformat s of None \<Rightarrow> Inl ValueError | Some t \<Rightarrow> Inr t)"
| "py_fromisoformat fromisoformat v = Inl TypeError"

subsection \<open>\<^verbatim>\<open>AbstractDatabase.insert\<close>\<close>

text \<open>
  \<^verbatim>\<open>self.number += 1\<close>, then the counter file is opened with \<^verbatim>\<open>aiofiles.open\<close> and no
  mode, which is mode \<^verbatim>\<open>'r'\<close>, and \<^verbatim>\<open>str(self.number)\<close> is written to the handle. The
  payload is only logged.
\<close>

definition AbstractDatabase_insert ::
  "'a AbstractDatabase_scheme \<Rightarrow> BaseVotePayload \<Rightarrow> disk
     \<Rightarrow> (error + unit) \<times> 'a AbstractDatabase_scheme \<times> disk" where
  "AbstractDatabase_insert self payload d =
     (let self1 = self\<lparr>number := number self + 1\<rparr>
      in case aio_open number_txt R d of
           Inl e \<Rightarrow> (Inl e, self1, d)
         | Inr (f, d1) \<Rightarrow>
             (case aio_write f (py_str (number self1)) d1 of
                Inl e \<Rightarrow> (Inl e, self1, d1)
              | Inr d2 \<Rightarrow> (Inr (), self1, d2)))"

subsection \<open>\<^verbatim>\<open>JSONDatabase\<close>\<close>

type_synonym JSONDatabase = AbstractDatabase

definition votes_json :: string where
  "votes_json = ''toppy_vote_cache/votes.json''"

definition JSONDatabase_init :: JSONDatabase where
  "JSONDatabase_init = \<lparr>number = 0\<rparr>"

definition JSONDatabase_connect ::
  "JSONDatabase \<Rightarrow> disk \<Rightarrow> (error + unit) \<times> JSONDatabase \<times> disk" where
  "JSONDatabase_connect self d =
     (case AbstractDatabase_connect self d of
        (Inl e, self1, d1) \<Rightarrow> (Inl e, self1, d1)
      | (Inr u, self1, d1) \<Rightarrow>
          if \<not> os_path_exists d1 votes_json
          then (case aio_open votes_json W d1 of
                  Inl e \<Rightarrow> (Inl e, self1, d1)
                | Inr (f, d2) \<Rightarrow>
                    (case aio_write f (json_dumps (JList [])) d2 of
                       Inl e \<Rightarrow> (Inl e, self1, d2)
                     | Inr d3 \<Rightarrow> (Inr (), self1, d3)))
          else (Inr (), self1, d1))"

text \<open>
  \<^verbatim>\<open>insert\<close> decodes the file into \<^verbatim>\<open>data\<close> and appends the new item to it; what it
  writes back is \<^verbatim>\<open>json.dumps(text, indent=4)\<close>, the encoding of the text it read.
\<close>

definition JSONDatabase_insert ::
  "JSONDatabase \<Rightarrow> BaseVotePayload \<Rightarrow> disk \<Rightarrow> (error + unit) \<times> JSONDatabase \<times> disk" where
  "JSONDatabase_insert self payload d =
     (case aio_open votes_json R d of
        Inl e \<Rightarrow> (Inl e, self, d)
      | Inr (f, d1) \<Rightarrow>
          (case aio_read f d1 of
             Inl e \<Rightarrow> (Inl e, self, d1)
           | Inr text \<Rightarrow>
               (case json_loads text of
                  None \<Rightarrow> (Inl JSONDecodeError, self, d1)
                | Some data \<Rightarrow>
                    (case py_append data
                            (JList [JInt (number self), JInt (user_id payload),
                                    JStr (isoformat (time payload)), JStr (SITE payload)]) of
                       Inl e \<Rightarrow> (Inl e, self, d1)
                     | Inr data1 \<Rightarrow>
                         (case aio_open votes_json W d1 of
                            Inl e \<Rightarrow> (Inl e, self, d1)
                          | Inr (g, d2) \<Rightarrow>
                              (let dumped = json_dumps_indent 4 (JStr text)
                               in case aio_write g dumped d2 of
                                    Inl e \<Rightarrow> (Inl e, self, d2)
                                  | Inr d3 \<Rightarrow> AbstractDatabase_insert self payload d3))))))"

text \<open>
  \<^verbatim>\<open>CachedVote(d[0], d[1], datetime.datetime.fromisoformat(d[2]), d[3])\<close>, the arguments
  evaluated from left to right.
\<close>

definition cached_vote_of :: "(string \<Rightarrow> datetime option) \<Rightarrow> json \<Rightarrow> error + CachedVote" where
  "cached_vote_of fromisoformat data =
     (case py_getitem data 0 of
        Inl e \<Rightarrow> Inl e
      | Inr x0 \<Rightarrow>
          (case py_getitem data 1 of
             Inl e \<Rightarrow> Inl e
           | Inr x1 \<Rightarrow>
               (case py_getitem data 2 of
                  Inl e \<Rightarrow> Inl e
                | Inr x2 \<Rightarrow>
                    (case py_fromisoformat fromisoformat x2 of
                       Inl e \<Rightarrow> Inl e
                     | Inr t \<Rightarrow>
                         (case py_getitem data 3 of
                            Inl e \<Rightarrow> Inl e
                          | Inr x3 \<Rightarrow> Inr (CachedVote x0 x1 t x3))))))"

text \<open>A comprehension stops at the first item that raises.\<close>

fun collect :: "('a \<Rightarrow> error + 'b) \<Rightarrow> 'a list \<Rightarrow> error + 'b list" where
  "collect f [] = Inr []"
| "collect f (x # xs) =
     (case f x of
        Inl e \<Rightarrow> Inl e
      | Inr y \<Rightarrow> (case collect f xs of Inl e \<Rightarrow> Inl e | Inr ys \<Rightarrow> Inr (y # ys)))"

text \<open>\<^verbatim>\<open>fetchone\<close> subscripts the decoded value with \<^verbatim>\<open>number\<close>.\<close>

definition JSONDatabase_fetchone ::
  "(string \<Rightarrow> datetime option) \<Rightarrow> JSONDatabase \<Rightarrow> int \<Rightarrow> disk
     \<Rightarrow> (error + CachedVote option) \<times> disk" where
  "JSONDatabase_fetchone fromisoformat self n d =
     (case aio_open votes_json R d of
        Inl e \<Rightarrow> (Inl e, d)
      | Inr (f, d1) \<Rightarrow>
          (case aio_read f d1 of
             Inl e \<Rightarrow> (Inl e, d1)
           | Inr text \<Rightarrow>
               (case json_loads text of
                  None \<Rightarrow> (Inl JSONDecodeError, d1)
                | Some v \<Rightarrow>
                    (case py_getitem v n of
                       Inl e \<Rightarrow> (Inl e, d1)
                     | Inr data \<Rightarrow>
                         (case cached_vote_of fromisoformat data of
                            Inl e \<Rightarrow> (Inl e, d1)
                          | Inr vote \<Rightarrow> (Inr (Some vote), d1))))))"

definition JSONDatabase_fetchmany ::
  "(string \<Rightarrow> datetime option) \<Rightarrow> JSONDatabase \<Rightarrow> disk \<Rightarrow> (error + CachedVote list) \<times> disk" where
  "JSONDatabase_fetchmany fromisoformat self d =
     (case aio_open votes_json R d of
        Inl e \<Rightarrow> (Inl e, d)
      | Inr (f, d1) \<Rightarrow>
          (case aio_read f d1 of
             Inl e \<Rightarrow> (Inl e, d1)
           | Inr text \<Rightarrow>
               (case json_loads text of
                  None \<Rightarrow> (Inl JSONDecodeError, d1)
                | Some data \<Rightarrow>
                    (case py_iter data of
                       Inl e \<Rightarrow> (Inl e, d1)
                     | Inr items \<Rightarrow>
                         (case collect (cached_vote_of fromisoformat) items of
                            Inl e \<Rightarrow> (Inl e, d1)
                          | Inr votes \<Rightarrow> (Inr votes, d1))))))"

subsection \<open>SQLite\<close>

text \<open>
  A connection is the path of its database file. Connecting creates the file when it is
  missing. An empty file is a database without tables; any other text is not a database.
  A statement takes effect when it is executed: every \<^verbatim>\<open>execute\<close> of the class is
  followed at once by \<^verbatim>\<open>commit\<close>, which is not modelled apart.
\<close>

definition aiosqlite_connect :: "string \<Rightarrow> disk \<Rightarrow> error + (string \<times> disk)" where
  "aiosqlite_connect name d =
     (if name \<in> dirs d then Inl OperationalError
      else if files d name \<noteq> None then Inr (name, d)
      else case parent_error d name of
             Some e \<Rightarrow> Inl OperationalError
           | None \<Rightarrow> Inr (name, d\<lparr>files := (files d)(name \<mapsto> Text [])\<rparr>))"

definition votes_table :: "string \<Rightarrow> disk \<Rightarrow> error + row list option" where
  "votes_table c d =
     (case files d c of
        None \<Rightarrow> Inr None
      | Some (Text s) \<Rightarrow> if s = [] then Inr None else Inl DatabaseError
      | Some (Sqlite t) \<Rightarrow> Inr t)"

text \<open>An SQLite integer has 64 bits; a larger Python int cannot be bound.\<close>

definition sqlite_int_ok :: "int \<Rightarrow> bool" where
  "sqlite_int_ok n = (- (2 ^ 63) \<le> n \<and> n < 2 ^ 63)"

text \<open>\<^verbatim>\<open>CREATE TABLE IF NOT EXISTS votes(number INT PRIMARY KEY, user_id INT, time TEXT, site TEXT)\<close>\<close>

definition execute_create_table :: "string \<Rightarrow> disk \<Rightarrow> error + disk" where
  "execute_create_table c d =
     (case votes_table c d of
        Inl e \<Rightarrow> Inl e
      | Inr (Some rows) \<Rightarrow> Inr d
      | Inr None \<Rightarrow> Inr (d\<lparr>files := (files d)(c \<mapsto> Sqlite (Some []))\<rparr>))"

text \<open>\<^verbatim>\<open>INSERT INTO votes VALUES (?, ?, ?, ?)\<close>: the primary key admits no number twice.\<close>

definition execute_insert :: "string \<Rightarrow> row \<Rightarrow> disk \<Rightarrow> error + disk" where
  "execute_insert c r d =
     (case votes_table c d of
        Inl e \<Rightarrow> Inl e
      | Inr None \<Rightarrow> Inl OperationalError
      | Inr (Some rows) \<Rightarrow>
          if \<not> (sqlite_int_ok (fst r) \<and> sqlite_int_ok (fst (snd r))) then Inl OverflowError
          else if fst r \<in> fst ` set rows then Inl IntegrityError
          else Inr (d\<lparr>files := (files d)(c \<mapsto> Sqlite (Some (rows @ [r])))\<rparr>))"


text \<open>\<^verbatim>\<open>SELECT * FROM votes\<close>\<close>

definition execute_select_all :: "string \<Rightarrow> disk \<Rightarrow> error + row list" where
  "execute_select_all c d =
     (case votes_table c d of
        Inl e \<Rightarrow> Inl e
      | Inr None \<Rightarrow> Inl OperationalError
      | Inr (Some rows) \<Rightarrow> Inr rows)"

subsection \<open>\<^verbatim>\<open>SQLiteDatabase\<close>\<close>

text \<open>\<^verbatim>\<open>self.conn\<close> is \<open>None\<close> while it is \<^verbatim>\<open>MISSING\<close>, which has no \<^verbatim>\<open>execute\<close>.\<close>

record SQLiteDatabase = AbstractDatabase +
  conn :: "string option"

definition votes_db :: string where
  "votes_db = ''toppy_vote_cache/votes.db''"

definition SQLiteDatabase_init :: SQLiteDatabase where
  "SQLiteDatabase_init = \<lparr>number = 0, conn = None\<rparr>"

definition SQLiteDatabase_connect ::
  "SQLiteDatabase \<Rightarrow> disk \<Rightarrow> (error + unit) \<times> SQLiteDatabase \<times> disk" where
  "SQLiteDatabase_connect self d =
     (case AbstractDatabase_connect self d of
        (Inl e, self1, d1) \<Rightarrow> (Inl e, self1, d1)
      | (Inr u, self1, d1) \<Rightarrow>
          (let d2 = (if \<not> os_path_exists d1 votes_db then mkfile votes_db d1 else d1)
           in case aiosqlite_connect votes_db d2 of
                Inl e \<Rightarrow> (Inl e, self1, d2)
              | Inr (c, d3) \<Rightarrow>
                  (let self2 = self1\<lparr>conn := Some c\<rparr>
                   in case execute_create_table c d3 of
                        Inl e \<Rightarrow> (Inl e, self2, d3)
                      | Inr d4 \<Rightarrow> (Inr (), self2, d4))))"

definition SQLiteDatabase_insert ::
  "SQLiteDatabase \<Rightarrow> BaseVotePayload \<Rightarrow> disk \<Rightarrow> (error + unit) \<times> SQLiteDatabase \<times> disk" where
  "SQLiteDatabase_insert self payload d =
     (case conn self of
        None \<Rightarrow> (Inl AttributeError, self, d)
      | Some c \<Rightarrow>
          (case execute_insert c (number self, user_id payload,
                                  isoformat (time payload), SITE payload) d of
             Inl e \<Rightarrow> (Inl e, self, d)
           | Inr d1 \<Rightarrow> AbstractDatabase_insert self payload d1))"

text \<open>A row becomes \<^verbatim>\<open>CachedVote(number, id, datetime.datetime.fromisoformat(time), site)\<close>.\<close>

definition cached_vote_of_row :: "(string \<Rightarrow> datetime option) \<Rightarrow> row \<Rightarrow> error + CachedVote" where
  "cached_vote_of_row fromisoformat r =
     (case r of (n, i, t, s) \<Rightarrow>
        (case py_fromisoformat fromisoformat (JStr t) of
           Inl e \<Rightarrow> Inl e
         | Inr t' \<Rightarrow> Inr (CachedVote (JInt n) (JInt i) t' (JStr s))))"


definition SQLiteDatabase_fetchmany ::
  "(string \<Rightarrow> datetime option) \<Rightarrow> SQLiteDatabase \<Rightarrow> disk \<Rightarrow> (error + CachedVote list) \<times> disk" where
  "SQLiteDatabase_fetchmany fromisoformat self d =
     (case conn self of
        None \<Rightarrow> (Inl AttributeError, d)
      | Some c \<Rightarrow>
          (case execute_select_all c d of
             Inl e \<Rightarrow> (Inl e, d)
           | Inr rows \<Rightarrow>
               (case collect (cached_vote_of_row fromisoformat) rows of
                  Inl e \<Rightarrow> (Inl e, d)
                | Inr votes \<Rightarrow> (Inr votes, d))))"

subsection \<open>Two storage roots\<close>

text \<open>A place where nothing has been stored yet.\<close>

definition fresh_disk :: disk where
  "fresh_disk = \<lparr>dirs = {}, files = Map.empty\<rparr>"

text \<open>A root prepared by hand: the directory, and a counter file that holds \<^verbatim>\<open>0\<close>.\<close>

definition seeded_disk :: disk where
  "seeded_disk = \<lparr>dirs = {root_dir}, files = [number_txt \<mapsto> Text ''0'']\<rparr>"

definition example_time :: datetime where
  "example_time = \<lparr>year = 2024, month = 1, day = 1, hour = 0, minute = 0, second = 0,
                   microsecond = 0, utcoffset = Some 0\<rparr>"

definition example_payload :: BaseVotePayload where
  "example_payload = \<lparr>user_id = 42, time = example_time, SITE = ''example''\<rparr>"

text \<open>The stores used below: connected on the prepared root, and after one \<^verbatim>\<open>insert\<close>.\<close>

definition json_connected :: "JSONDatabase \<times> disk" where
  "json_connected = snd (JSONDatabase_connect JSONDatabase_init seeded_disk)"

definition json_inserted :: "BaseVotePayload \<Rightarrow> JSONDatabase \<times> disk" where
  "json_inserted p = snd (JSONDatabase_insert (fst json_connected) p (snd json_connected))"

definition sqlite_connected :: "SQLiteDatabase \<times> disk" where
  "sqlite_connected = snd (SQLiteDatabase_connect SQLiteDatabase_init seeded_disk)"

definition sqlite_inserted :: "BaseVotePayload \<Rightarrow> SQLiteDatabase \<times> disk" where
  "sqlite_inserted p = snd (SQLiteDatabase_insert (fst sqlite_connected) p (snd sqlite_connected))"

text \<open>
  A well-formed \<^verbatim>\<open>votes.json\<close> with two votes, numbered 0 and 1, beside a counter file
  that holds \<^verbatim>\<open>2\<close>.
\<close>

definition two_votes :: json where
  "two_votes =
     JList [JList [JInt 0, JInt 1, JStr ''2024-01-01T00:00:00+00:00'', JStr ''a''],
            JList [JInt 1, JInt 2, JStr ''2024-01-02T00:00:00+00:00'', JStr ''b'']]"

definition two_votes_disk :: disk where
  "two_votes_disk =
     \<lparr>dirs = {root_dir},
      files = [number_txt \<mapsto> Text ''2'', votes_json \<mapsto> Text (json_dumps two_votes)]\<rparr>"


section \<open>Properties\<close>

subsection \<open>Paths and constants\<close>

declare str_nat.simps [simp del]

lemma parent_paths:
  "parent root_dir = []" "parent number_txt = root_dir"
  "parent votes_json = root_dir" "parent votes_db = root_dir"
  by (simp_all add: parent_def root_dir_def number_txt_def votes_json_def votes_db_def)

lemma paths_distinct:
  "root_dir \<noteq> number_txt" "root_dir \<noteq> votes_json" "root_dir \<noteq> votes_db"
  "number_txt \<noteq> votes_json" "number_txt \<noteq> votes_db" "votes_json \<noteq> votes_db"
  "number_txt \<noteq> root_dir" "votes_json \<noteq> root_dir" "votes_db \<noteq> root_dir"
  "votes_json \<noteq> number_txt" "votes_db \<noteq> number_txt" "votes_db \<noteq> votes_json"
  "root_dir \<noteq> []"
  by (simp_all add: root_dir_def number_txt_def votes_json_def votes_db_def)

lemma py_int_empty: "py_int [] = None"
  by (simp add: py_int_def strip_def)

lemma py_int_zero: "py_int ''0'' = Some 0"
  by code_simp

lemma json_dumps_empty_list: "json_dumps (JList []) = ''[]''"
  by (simp add: json_dumps_def)

lemma json_loads_empty_list: "json_loads ''[]'' = Some (JList [])"
  by code_simp

lemma dumps_of_text: "json_dumps_indent 4 (JStr ''[]'') = [dquote, CHR ''['', CHR '']'', dquote]"
  by code_simp

lemma json_loads_quoted: "json_loads [dquote, CHR ''['', CHR '']'', dquote] = Some (JStr ''[]'')"
  by code_simp

lemma isoformat_example: "isoformat example_time = ''2024-01-01T00:00:00+00:00''"
  by code_simp

subsection \<open>The first \<^verbatim>\<open>connect\<close>\<close>

lemma ensure_root_fresh:
  "ensure_root fresh_disk = \<lparr>dirs = {root_dir}, files = [number_txt \<mapsto> Text []]\<rparr>"
  by (simp add: ensure_root_def fresh_disk_def os_path_exists_def mkdir_def os_mkdir_def
      parent_error_def parent_paths mkfile_def aio_open_def paths_distinct)

lemma ensure_root_new:
  assumes "\<not> os_path_exists d root_dir" and "\<not> os_path_exists d number_txt"
  shows "ensure_root d =
           d\<lparr>dirs := insert root_dir (dirs d), files := (files d)(number_txt \<mapsto> Text [])\<rparr>"
  using assms
  by (simp add: ensure_root_def os_path_exists_def mkdir_def os_mkdir_def parent_error_def
      parent_paths mkfile_def aio_open_def paths_distinct)

lemma abstract_connect_new:
  assumes "\<not> os_path_exists d root_dir" and "\<not> os_path_exists d number_txt"
  shows "AbstractDatabase_connect self d =
           (Inl ValueError, self,
            d\<lparr>dirs := insert root_dir (dirs d), files := (files d)(number_txt \<mapsto> Text [])\<rparr>)"
  using assms
  by (simp add: AbstractDatabase_connect_def ensure_root_new)
     (simp add: os_path_exists_def aio_open_def aio_read_def paths_distinct py_int_empty)

text \<open>
  C10. Where neither the directory \<^verbatim>\<open>toppy_vote_cache\<close> nor \<^verbatim>\<open>number.txt\<close> exists,
  \<^verbatim>\<open>connect\<close> of either class makes the directory and an empty counter file, and
  \<^verbatim>\<open>int\<close> of the empty text raises \<^verbatim>\<open>ValueError\<close>: the call fails, \<^verbatim>\<open>self\<close> is as
  it was, and neither \<^verbatim>\<open>votes.json\<close> nor \<^verbatim>\<open>votes.db\<close> is reached.
\<close>

theorem first_connect_raises_ValueError:
  assumes "\<not> os_path_exists d root_dir" and "\<not> os_path_exists d number_txt"
  shows "JSONDatabase_connect js d =
           (Inl ValueError, js,
            d\<lparr>dirs := insert root_dir (dirs d), files := (files d)(number_txt \<mapsto> Text [])\<rparr>)
         \<and> SQLiteDatabase_connect ss d =
           (Inl ValueError, ss,
            d\<lparr>dirs := insert root_dir (dirs d), files := (files d)(number_txt \<mapsto> Text [])\<rparr>)"
  using assms
  by (simp add: JSONDatabase_connect_def SQLiteDatabase_connect_def abstract_connect_new)

theorem first_connect_raises_ValueError_witness:
  "\<not> os_path_exists fresh_disk root_dir \<and> \<not> os_path_exists fresh_disk number_txt
   \<and> fst (JSONDatabase_connect JSONDatabase_init fresh_disk) = Inl ValueError
   \<and> fst (SQLiteDatabase_connect SQLiteDatabase_init fresh_disk) = Inl ValueError
   \<and> number (fst (snd (JSONDatabase_connect JSONDatabase_init fresh_disk))) = 0
   \<and> files (snd (snd (JSONDatabase_connect JSONDatabase_init fresh_disk))) number_txt
       = Some (Text [])"
proof -
  have a: "\<not> os_path_exists fresh_disk root_dir"
    by (simp add: os_path_exists_def fresh_disk_def)
  have b: "\<not> os_path_exists fresh_disk number_txt"
    by (simp add: os_path_exists_def fresh_disk_def)
  show ?thesis
    using a b first_connect_raises_ValueError [OF a b, of JSONDatabase_init SQLiteDatabase_init]
    by (simp add: JSONDatabase_init_def)
qed

text \<open>
  C8. On a new root the first two statements of \<^verbatim>\<open>connect\<close> make the directory and the
  counter file, and doing them again changes nothing; but the counter file they make is
  empty, where the claim has the content \<^verbatim>\<open>0\<close>.
\<close>

theorem counter_file_created_empty:
  "files (ensure_root fresh_disk) number_txt = Some (Text [])
   \<and> dirs (ensure_root fresh_disk) = {root_dir}
   \<and> ensure_root (ensure_root fresh_disk) = ensure_root fresh_disk"
  by (simp add: ensure_root_fresh) (simp add: ensure_root_def os_path_exists_def)

subsection \<open>The stores on the prepared root\<close>

lemma ensure_root_seeded: "ensure_root seeded_disk = seeded_disk"
  by (simp add: ensure_root_def seeded_disk_def os_path_exists_def)

lemma abstract_connect_seeded:
  "AbstractDatabase_connect self seeded_disk = (Inr (), self\<lparr>number := 0\<rparr>, seeded_disk)"
  by (simp add: AbstractDatabase_connect_def ensure_root_seeded)
     (simp add: seeded_disk_def aio_open_def aio_read_def paths_distinct py_int_zero)

lemma json_connect_seeded:
  "JSONDatabase_connect self seeded_disk =
     (Inr (), self\<lparr>number := 0\<rparr>,
      \<lparr>dirs = {root_dir}, files = [number_txt \<mapsto> Text ''0'', votes_json \<mapsto> Text ''[]'']\<rparr>)"
  by (simp add: JSONDatabase_connect_def abstract_connect_seeded)
     (simp add: seeded_disk_def os_path_exists_def aio_open_def aio_write_def
       paths_distinct parent_error_def parent_paths json_dumps_empty_list)

lemma json_connected_eq:
  "json_connected =
     (\<lparr>number = 0\<rparr>,
      \<lparr>dirs = {root_dir}, files = [number_txt \<mapsto> Text ''0'', votes_json \<mapsto> Text ''[]'']\<rparr>)"
  by (simp add: json_connected_def json_connect_seeded JSONDatabase_init_def)

text \<open>
  The counter file is opened for reading, so the write of the new number raises: the
  method never returns normally and never changes the disk.
\<close>

lemma abstract_insert_raises:
  "AbstractDatabase_insert self p d =
     ((if number_txt \<in> dirs d then Inl IsADirectoryError
       else if files d number_txt = None then Inl FileNotFoundError
       else Inl UnsupportedOperation),
      self\<lparr>number := number self + 1\<rparr>, d)"
  by (simp add: AbstractDatabase_insert_def aio_open_def aio_write_def)

lemma json_insert_seeded:
  "JSONDatabase_insert (fst json_connected) p (snd json_connected) =
     (Inl UnsupportedOperation, \<lparr>number = 1\<rparr>,
      \<lparr>dirs = {root_dir},
        files = [number_txt \<mapsto> Text ''0'',
                 votes_json \<mapsto> Text [dquote, CHR ''['', CHR '']'', dquote]]\<rparr>)"
  by (simp add: json_connected_eq JSONDatabase_insert_def aio_open_def aio_read_def
      paths_distinct json_loads_empty_list parent_error_def parent_paths dumps_of_text
      aio_write_def abstract_insert_raises)

lemma json_inserted_eq:
  "json_inserted p =
     (\<lparr>number = 1\<rparr>,
      \<lparr>dirs = {root_dir},
        files = [number_txt \<mapsto> Text ''0'',
                 votes_json \<mapsto> Text [dquote, CHR ''['', CHR '']'', dquote]]\<rparr>)"
  by (simp add: json_inserted_def json_insert_seeded)

lemma sqlite_connect_seeded:
  "SQLiteDatabase_connect self seeded_disk =
     (Inr (), self\<lparr>number := 0, conn := Some votes_db\<rparr>,
      \<lparr>dirs = {root_dir}, files = [number_txt \<mapsto> Text ''0'', votes_db \<mapsto> Sqlite (Some [])]\<rparr>)"
  by (simp add: SQLiteDatabase_connect_def abstract_connect_seeded)
     (simp add: seeded_disk_def os_path_exists_def mkfile_def aio_open_def aiosqlite_connect_def
       paths_distinct parent_error_def parent_paths execute_create_table_def votes_table_def)

lemma sqlite_connected_eq:
  "sqlite_connected =
     (\<lparr>number = 0, conn = Some votes_db\<rparr>,
      \<lparr>dirs = {root_dir}, files = [number_txt \<mapsto> Text ''0'', votes_db \<mapsto> Sqlite (Some [])]\<rparr>)"
  by (simp add: sqlite_connected_def sqlite_connect_seeded SQLiteDatabase_init_def)

lemma sqlite_int_ok_small: "sqlite_int_ok 0" "sqlite_int_ok 42"
  by (simp_all add: sqlite_int_ok_def)

lemma sqlite_insert_seeded:
  "SQLiteDatabase_insert (fst sqlite_connected) example_payload (snd sqlite_connected) =
     (Inl UnsupportedOperation, \<lparr>number = 1, conn = Some votes_db\<rparr>,
      \<lparr>dirs = {root_dir},
        files = [number_txt \<mapsto> Text ''0'',
                 votes_db \<mapsto> Sqlite (Some [(0, 42, ''2024-01-01T00:00:00+00:00'', ''example'')])]\<rparr>)"
  by (simp add: sqlite_connected_eq SQLiteDatabase_insert_def execute_insert_def votes_table_def
      paths_distinct sqlite_int_ok_small example_payload_def isoformat_example
      abstract_insert_raises)

lemma sqlite_inserted_eq:
  "sqlite_inserted example_payload =
     (\<lparr>number = 1, conn = Some votes_db\<rparr>,
      \<lparr>dirs = {root_dir},
        files = [number_txt \<mapsto> Text ''0'',
                 votes_db \<mapsto> Sqlite (Some [(0, 42, ''2024-01-01T00:00:00+00:00'', ''example'')])]\<rparr>)"
  by (simp add: sqlite_inserted_def sqlite_insert_seeded)

text \<open>
  Once \<^verbatim>\<open>votes.json\<close> holds the JSON string \<^verbatim>\<open>"[]"\<close>, the decoded value is the str
  \<^verbatim>\<open>[]\<close>: its first item is the str \<^verbatim>\<open>[\<close>, which has no second character.
\<close>

lemma json_fetchmany_quoted:
  assumes "votes_json \<notin> dirs d"
    and "files d votes_json = Some (Text [dquote, CHR ''['', CHR '']'', dquote])"
  shows "JSONDatabase_fetchmany fromisoformat self d = (Inl IndexError, d)"
  using assms
  by (simp add: JSONDatabase_fetchmany_def aio_open_def aio_read_def json_loads_quoted
      cached_vote_of_def py_index_def)

lemma json_fetchone_quoted:
  assumes "votes_json \<notin> dirs d"
    and "files d votes_json = Some (Text [dquote, CHR ''['', CHR '']'', dquote])"
  shows "JSONDatabase_fetchone fromisoformat self 0 d = (Inl IndexError, d)"
  using assms
  by (simp add: JSONDatabase_fetchone_def aio_open_def aio_read_def json_loads_quoted
      cached_vote_of_def py_index_def)

subsection \<open>The claims on inserting and fetching\<close>

text \<open>
  C1. A \<^verbatim>\<open>JSONDatabase\<close> connects on the prepared root (on a new root no \<^verbatim>\<open>connect\<close>
  completes), and after one \<^verbatim>\<open>insert\<close> of any payload \<^verbatim>\<open>fetchmany\<close> raises
  \<^verbatim>\<open>IndexError\<close>, where the claim has one record of sequence 0.
\<close>

theorem document_fetchmany_raises_after_insert:
  "fst (JSONDatabase_connect JSONDatabase_init seeded_disk) = Inr ()
   \<and> fst (JSONDatabase_fetchmany fromisoformat (fst (json_inserted p)) (snd (json_inserted p)))
       = Inl IndexError"
  by (simp add: json_connect_seeded json_inserted_eq json_fetchmany_quoted paths_distinct)

text \<open>
  C3. On both connected stores \<^verbatim>\<open>insert\<close> raises \<^verbatim>\<open>UnsupportedOperation\<close> at the write
  of the counter: \<^verbatim>\<open>self.number\<close> is 1 afterwards and \<^verbatim>\<open>number.txt\<close> still holds
  \<^verbatim>\<open>0\<close>, where the claim has it overwritten with \<^verbatim>\<open>1\<close>.
\<close>

theorem insert_leaves_counter_file:
  "fst (JSONDatabase_insert (fst json_connected) p (snd json_connected)) = Inl UnsupportedOperation
   \<and> number (fst (json_inserted p)) = 1
   \<and> files (snd (json_inserted p)) number_txt = Some (Text ''0'')
   \<and> fst (SQLiteDatabase_insert (fst sqlite_connected) example_payload (snd sqlite_connected))
       = Inl UnsupportedOperation
   \<and> number (fst (sqlite_inserted example_payload)) = 1
   \<and> files (snd (sqlite_inserted example_payload)) number_txt = Some (Text ''0'')"
  by (simp add: json_insert_seeded json_inserted_eq sqlite_insert_seeded sqlite_inserted_eq
      paths_distinct)

text \<open>
  C4. \<^verbatim>\<open>votes.json\<close> holds \<^verbatim>\<open>[]\<close> after \<^verbatim>\<open>connect\<close>; after one \<^verbatim>\<open>insert\<close> of any
  payload it holds the four characters \<^verbatim>\<open>"[]"\<close>, which decode to a str and not to a
  list with the new item.
\<close>

theorem document_insert_writes_text_encoding:
  "files (snd json_connected) votes_json = Some (Text ''[]'')
   \<and> files (snd (json_inserted p)) votes_json = Some (Text [dquote, CHR ''['', CHR '']'', dquote])
   \<and> json_loads [dquote, CHR ''['', CHR '']'', dquote] = Some (JStr ''[]'')"
  by (simp add: json_connected_eq json_inserted_eq json_loads_quoted)

text \<open>
  C5. The payload with \<^verbatim>\<open>user_id\<close> 42 and site \<^verbatim>\<open>example\<close> is inserted into the
  connected \<^verbatim>\<open>JSONDatabase\<close> with the number 0; \<^verbatim>\<open>fetchone(0)\<close> then raises
  \<^verbatim>\<open>IndexError\<close> and returns no vote.
\<close>

theorem document_round_trip_raises:
  "fst (JSONDatabase_fetchone fromisoformat (fst (json_inserted example_payload)) 0
          (snd (json_inserted example_payload))) = Inl IndexError"
  by (simp add: json_inserted_eq json_fetchone_quoted paths_distinct)

text \<open>
  C6. After the same single payload, \<^verbatim>\<open>fetchmany\<close> of the \<^verbatim>\<open>JSONDatabase\<close> raises
  \<^verbatim>\<open>IndexError\<close>, while \<^verbatim>\<open>fetchmany\<close> of the \<^verbatim>\<open>SQLiteDatabase\<close> returns the one vote
  (or the \<^verbatim>\<open>ValueError\<close> of \<^verbatim>\<open>fromisoformat\<close>).
\<close>

theorem backends_differ_after_insert:
  "fst (JSONDatabase_fetchmany fromisoformat (fst (json_inserted example_payload))
          (snd (json_inserted example_payload))) = Inl IndexError
   \<and> fst (SQLiteDatabase_fetchmany fromisoformat (fst (sqlite_inserted example_payload))
          (snd (sqlite_inserted example_payload)))
       = (case fromisoformat ''2024-01-01T00:00:00+00:00'' of
            None \<Rightarrow> Inl ValueError
          | Some t \<Rightarrow> Inr [CachedVote (JInt 0) (JInt 42) t (JStr ''example'')])"
  by (simp add: json_inserted_eq json_fetchmany_quoted paths_distinct sqlite_inserted_eq
      SQLiteDatabase_fetchmany_def execute_select_all_def votes_table_def cached_vote_of_row_def
      split: option.splits)

subsection \<open>The outcomes of \<^verbatim>\<open>connect\<close>\<close>









subsection \<open>Connecting again\<close>












subsection \<open>Fetching out of range\<close>

lemma loads_two_votes: "json_loads (json_dumps two_votes) = Some two_votes"
  by code_simp

lemma json_fetchone_two_votes:
  "fst (JSONDatabase_fetchone fromisoformat self n two_votes_disk) =
     (case py_getitem two_votes n of
        Inl e \<Rightarrow> Inl e
      | Inr data \<Rightarrow>
          (case cached_vote_of fromisoformat data of
             Inl e \<Rightarrow> Inl e
           | Inr vote \<Rightarrow> Inr (Some vote)))"
  by (simp add: JSONDatabase_fetchone_def aio_open_def aio_read_def two_votes_disk_def
      paths_distinct loads_two_votes split: sum.splits)

text \<open>
  C2. \<^verbatim>\<open>JSONDatabase.fetchone\<close> out of range: on the connected store without votes
  (\<^verbatim>\<open>fetchmany\<close> returns the empty list) \<^verbatim>\<open>fetchone(0)\<close> raises \<^verbatim>\<open>IndexError\<close>; on
  a file with the votes 0 and 1, \<^verbatim>\<open>fetchone(2)\<close> raises \<^verbatim>\<open>IndexError\<close> and
  \<^verbatim>\<open>fetchone(-1)\<close> returns the vote numbered 1. The claim has \<^verbatim>\<open>None\<close> in all three.
\<close>

theorem document_fetchone_out_of_range:
  "fst (JSONDatabase_fetchmany fromisoformat (fst json_connected) (snd json_connected)) = Inr []
   \<and> fst (JSONDatabase_fetchone fromisoformat (fst json_connected) 0 (snd json_connected))
       = Inl IndexError
   \<and> fst (JSONDatabase_fetchone fromisoformat self 2 two_votes_disk) = Inl IndexError
   \<and> fst (JSONDatabase_fetchone fromisoformat self (- 1) two_votes_disk)
       = (case fromisoformat ''2024-01-02T00:00:00+00:00'' of
            None \<Rightarrow> Inl ValueError
          | Some t \<Rightarrow> Inr (Some (CachedVote (JInt 1) (JInt 2) t (JStr ''b''))))"
proof -
  have z: "fst (JSONDatabase_fetchmany fromisoformat (fst json_connected) (snd json_connected))
             = Inr []"
    by (simp add: json_connected_eq JSONDatabase_fetchmany_def aio_open_def aio_read_def
        paths_distinct json_loads_empty_list)
  have a: "fst (JSONDatabase_fetchone fromisoformat (fst json_connected) 0 (snd json_connected))
             = Inl IndexError"
    by (simp add: json_connected_eq JSONDatabase_fetchone_def aio_open_def aio_read_def
        paths_distinct json_loads_empty_list py_index_def)
  have b: "fst (JSONDatabase_fetchone fromisoformat self 2 two_votes_disk) = Inl IndexError"
    by (simp add: json_fetchone_two_votes) (simp add: two_votes_def py_index_def)
  have c: "fst (JSONDatabase_fetchone fromisoformat self (- 1) two_votes_disk)
       = (case fromisoformat ''2024-01-02T00:00:00+00:00'' of
            None \<Rightarrow> Inl ValueError
          | Some t \<Rightarrow> Inr (Some (CachedVote (JInt 1) (JInt 2) t (JStr ''b''))))"
    by (simp add: json_fetchone_two_votes)
       (simp add: two_votes_def py_index_def cached_vote_of_def split: option.splits)
  from z a b c show ?thesis by simp
qed

subsection \<open>What a failing call leaves behind\<close>








end
